theory Spec2Isabelle
  imports Main
begin

section \<open>JavaScript values and the global object\<close>

text \<open>
  The file \<^verbatim>\<open>implementors/core/ops/trait.SubAssign.js\<close> is one immediately invoked
  function: it builds the object \<^verbatim>\<open>implementors\<close> by ten property assignments and then
  either calls \<^verbatim>\<open>window.register_implementors\<close> with it or stores it in
  \<^verbatim>\<open>window.pending_implementors\<close>.

  Values are modelled by kind. An object is its list of own properties in insertion
  order (all keys of this file are non-numeric strings, so insertion order is the
  enumeration order); an array is the list of its elements; a function value is the
  index of a host function, whose behaviour the host supplies. Numbers are the integers
  and NaN, which is all that truthiness distinguishes.
\<close>

datatype jsval =
    JUndefined
  | JNull
  | JBool bool
  | JNumber int
  | JNaN
  | JString string
  | JArray "jsval list"
  | JObject "(string \<times> jsval) list"
  | JFunction nat

text \<open>ToBoolean, the test an \<^verbatim>\<open>if\<close> statement applies to its condition.\<close>

fun truthy :: "jsval \<Rightarrow> bool" where
  "truthy JUndefined = False"
| "truthy JNull = False"
| "truthy (JBool b) = b"
| "truthy (JNumber n) = (n \<noteq> 0)"
| "truthy JNaN = False"
| "truthy (JString s) = (s \<noteq> [])"
| "truthy (JArray xs) = True"
| "truthy (JObject ps) = True"
| "truthy (JFunction f) = True"

text \<open>
  The global object \<^verbatim>\<open>window\<close>: a partial map from property names to values, with
  plain data properties. Reading a property that is not there gives \<^verbatim>\<open>undefined\<close>;
  an assignment creates or overwrites the property.
\<close>

type_synonym window = "string \<rightharpoonup> jsval"

definition get_prop :: "window \<Rightarrow> string \<Rightarrow> jsval" where
  "get_prop w k = (case w k of None \<Rightarrow> JUndefined | Some v \<Rightarrow> v)"

definition set_prop :: "window \<Rightarrow> string \<Rightarrow> jsval \<Rightarrow> window" where
  "set_prop w k v = w(k \<mapsto> v)"

text \<open>
  The statement \<^verbatim>\<open>obj[k] = v\<close> on an object literal under construction: an existing
  key keeps its place and gets the new value, a new key goes to the end.
\<close>

fun assign :: "string \<Rightarrow> jsval \<Rightarrow> (string \<times> jsval) list \<Rightarrow> (string \<times> jsval) list" where
  "assign k v [] = [(k, v)]"
| "assign k v (p # ps) = (if fst p = k then (k, v) # ps else p # assign k v ps)"

section \<open>The registry literal\<close>

text \<open>The array literal assigned to \<^verbatim>\<open>implementors['wayland_client']\<close>.\<close>

definition wayland_client_impls :: "string list" where
  "wayland_client_impls =
     [''impl <a class='trait' href='https://doc.rust-lang.org/nightly/core/ops/trait.SubAssign.html' title='core::ops::SubAssign'>SubAssign</a> for <a class='struct' href='wayland_client/wayland/shell/WlShellSurfaceResize/struct.WlShellSurfaceResize.html' title='wayland_client::wayland::shell::WlShellSurfaceResize::WlShellSurfaceResize'>WlShellSurfaceResize</a>'',
      ''impl <a class='trait' href='https://doc.rust-lang.org/nightly/core/ops/trait.SubAssign.html' title='core::ops::SubAssign'>SubAssign</a> for <a class='struct' href='wayland_client/wayland/shell/WlShellSurfaceTransient/struct.WlShellSurfaceTransient.html' title='wayland_client::wayland::shell::WlShellSurfaceTransient::WlShellSurfaceTransient'>WlShellSurfaceTransient</a>'',
      ''impl <a class='trait' href='https://doc.rust-lang.org/nightly/core/ops/trait.SubAssign.html' title='core::ops::SubAssign'>SubAssign</a> for <a class='struct' href='wayland_client/wayland/seat/WlSeatCapability/struct.WlSeatCapability.html' title='wayland_client::wayland::seat::WlSeatCapability::WlSeatCapability'>WlSeatCapability</a>'',
      ''impl <a class='trait' href='https://doc.rust-lang.org/nightly/core/ops/trait.SubAssign.html' title='core::ops::SubAssign'>SubAssign</a> for <a class='struct' href='wayland_client/wayland/output/WlOutputMode/struct.WlOutputMode.html' title='wayland_client::wayland::output::WlOutputMode::WlOutputMode'>WlOutputMode</a>'',
      ''impl <a class='trait' href='https://doc.rust-lang.org/nightly/core/ops/trait.SubAssign.html' title='core::ops::SubAssign'>SubAssign</a> for <a class='struct' href='wayland_client/wayland/output/WlOutputMode/struct.WlOutputMode.html' title='wayland_client::wayland::output::WlOutputMode::WlOutputMode'>WlOutputMode</a>'',
      ''impl <a class='trait' href='https://doc.rust-lang.org/nightly/core/ops/trait.SubAssign.html' title='core::ops::SubAssign'>SubAssign</a> for <a class='struct' href='wayland_client/wayland/seat/WlSeatCapability/struct.WlSeatCapability.html' title='wayland_client::wayland::seat::WlSeatCapability::WlSeatCapability'>WlSeatCapability</a>'',
      ''impl <a class='trait' href='https://doc.rust-lang.org/nightly/core/ops/trait.SubAssign.html' title='core::ops::SubAssign'>SubAssign</a> for <a class='struct' href='wayland_client/wayland/shell/WlShellSurfaceResize/struct.WlShellSurfaceResize.html' title='wayland_client::wayland::shell::WlShellSurfaceResize::WlShellSurfaceResize'>WlShellSurfaceResize</a>'',
      ''impl <a class='trait' href='https://doc.rust-lang.org/nightly/core/ops/trait.SubAssign.html' title='core::ops::SubAssign'>SubAssign</a> for <a class='struct' href='wayland_client/wayland/shell/WlShellSurfaceTransient/struct.WlShellSurfaceTransient.html' title='wayland_client::wayland::shell::WlShellSurfaceTransient::WlShellSurfaceTransient'>WlShellSurfaceTransient</a>'']"

text \<open>The array literal assigned to \<^verbatim>\<open>implementors['wayland_window']\<close>.\<close>

definition wayland_window_impls :: "string list" where
  "wayland_window_impls =
     [''impl <a class='trait' href='https://doc.rust-lang.org/nightly/core/ops/trait.SubAssign.html' title='core::ops::SubAssign'>SubAssign</a>&lt;<a class='struct' href='wayland_client/sys/wayland/client/WlShellSurfaceResize/struct.WlShellSurfaceResize.html' title='wayland_client::sys::wayland::client::WlShellSurfaceResize::WlShellSurfaceResize'>WlShellSurfaceResize</a>&gt; for <a class='struct' href='wayland_client/sys/wayland/client/WlShellSurfaceResize/struct.WlShellSurfaceResize.html' title='wayland_client::sys::wayland::client::WlShellSurfaceResize::WlShellSurfaceResize'>WlShellSurfaceResize</a>'',
      ''impl <a class='trait' href='https://doc.rust-lang.org/nightly/core/ops/trait.SubAssign.html' title='core::ops::SubAssign'>SubAssign</a>&lt;<a class='struct' href='wayland_client/sys/wayland/client/WlShellSurfaceTransient/struct.WlShellSurfaceTransient.html' title='wayland_client::sys::wayland::client::WlShellSurfaceTransient::WlShellSurfaceTransient'>WlShellSurfaceTransient</a>&gt; for <a class='struct' href='wayland_client/sys/wayland/client/WlShellSurfaceTransient/struct.WlShellSurfaceTransient.html' title='wayland_client::sys::wayland::client::WlShellSurfaceTransient::WlShellSurfaceTransient'>WlShellSurfaceTransient</a>'',
      ''impl <a class='trait' href='https://doc.rust-lang.org/nightly/core/ops/trait.SubAssign.html' title='core::ops::SubAssign'>SubAssign</a>&lt;<a class='struct' href='wayland_client/sys/wayland/client/WlSeatCapability/struct.WlSeatCapability.html' title='wayland_client::sys::wayland::client::WlSeatCapability::WlSeatCapability'>WlSeatCapability</a>&gt; for <a class='struct' href='wayland_client/sys/wayland/client/WlSeatCapability/struct.WlSeatCapability.html' title='wayland_client::sys::wayland::client::WlSeatCapability::WlSeatCapability'>WlSeatCapability</a>'',
      ''impl <a class='trait' href='https://doc.rust-lang.org/nightly/core/ops/trait.SubAssign.html' title='core::ops::SubAssign'>SubAssign</a>&lt;<a class='struct' href='wayland_client/sys/wayland/client/WlOutputMode/struct.WlOutputMode.html' title='wayland_client::sys::wayland::client::WlOutputMode::WlOutputMode'>WlOutputMode</a>&gt; for <a class='struct' href='wayland_client/sys/wayland/client/WlOutputMode/struct.WlOutputMode.html' title='wayland_client::sys::wayland::client::WlOutputMode::WlOutputMode'>WlOutputMode</a>'']"

text \<open>
  \<^verbatim>\<open>var implementors = {};\<close> followed by the ten assignments, in the order of the
  source.
\<close>

definition implementors :: "(string \<times> jsval) list" where
  "implementors =
     (let obj = [];
          obj = assign ''libloading'' (JArray []) obj;
          obj = assign ''libc'' (JArray []) obj;
          obj = assign ''dlib'' (JArray []) obj;
          obj = assign ''wayland_sys'' (JArray []) obj;
          obj = assign ''shared_library'' (JArray []) obj;
          obj = assign ''wayland_client'' (JArray (map JString wayland_client_impls)) obj;
          obj = assign ''tempfile'' (JArray []) obj;
          obj = assign ''wayland_window'' (JArray (map JString wayland_window_impls)) obj;
          obj = assign ''wayland_kbd'' (JArray []) obj;
          obj = assign ''winit'' (JArray []) obj
      in obj)"

section \<open>The host and the publish step\<close>

text \<open>
  What a host function does when it is called with an argument in a global state: it
  returns with a new global state (its return value is discarded by the call statement),
  it throws a value, having changed the global state so far, or it never returns.
\<close>

datatype hook_result =
    Returns window
  | Throws jsval window
  | Diverges

type_synonym host = "nat \<Rightarrow> jsval \<Rightarrow> window \<Rightarrow> hook_result"

text \<open>
  The errors a run can end with: the \<^verbatim>\<open>TypeError\<close> the call expression itself
  raises when the callee is not a function, and a value thrown by the called function,
  which the file does not catch.
\<close>

datatype js_error = TypeError | Thrown jsval

datatype result =
    Done window
  | Fail js_error window
  | Hang

text \<open>What the file itself does to the host, in order: calls and global writes.\<close>

datatype event =
    HookCall nat jsval
  | SlotWrite string jsval

record outcome =
  trace :: "event list"
  result :: result

text \<open>How a call statement ends, given how the called function ended.\<close>

fun completion :: "hook_result \<Rightarrow> result" where
  "completion (Returns w) = Done w"
| "completion (Throws v w) = Fail (Thrown v) w"
| "completion Diverges = Hang"

text \<open>
  The call \<^verbatim>\<open>callee(arg)\<close> as a statement: a function value is called, any other
  callee makes the call expression raise \<^verbatim>\<open>TypeError\<close> before anything is called.
\<close>

fun call :: "host \<Rightarrow> jsval \<Rightarrow> jsval \<Rightarrow> window \<Rightarrow> outcome" where
  "call host (JFunction f) arg w =
     \<lparr>trace = [HookCall f arg], result = completion (host f arg w)\<rparr>"
| "call host callee arg w = \<lparr>trace = [], result = Fail TypeError w\<rparr>"

text \<open>
  The two-way branch at the end of the function:
  \<^verbatim>\<open>
  if (window.register_implementors) {
      window.register_implementors(implementors);
  } else {
      window.pending_implementors = implementors;
  }
  \<close>
\<close>

definition publish :: "host \<Rightarrow> window \<Rightarrow> outcome" where
  "publish host w =
     (if truthy (get_prop w ''register_implementors'')
      then call host (get_prop w ''register_implementors'') (JObject implementors) w
      else \<lparr>trace = [SlotWrite ''pending_implementors'' (JObject implementors)],
            result = Done (set_prop w ''pending_implementors'' (JObject implementors))\<rparr>)"

section \<open>Observations on an outcome\<close>

text \<open>The arguments of the hook calls, and the global writes, that the file made.\<close>

fun hook_args :: "event list \<Rightarrow> jsval list" where
  "hook_args [] = []"
| "hook_args (HookCall f a # es) = a # hook_args es"
| "hook_args (SlotWrite k v # es) = hook_args es"

fun slot_writes :: "event list \<Rightarrow> (string \<times> jsval) list" where
  "slot_writes [] = []"
| "slot_writes (HookCall f a # es) = slot_writes es"
| "slot_writes (SlotWrite k v # es) = (k, v) # slot_writes es"

text \<open>Every value the file handed to the host, by a call or by a global write.\<close>

fun handed :: "event list \<Rightarrow> jsval list" where
  "handed [] = []"
| "handed (HookCall f a # es) = a # handed es"
| "handed (SlotWrite k v # es) = v # handed es"

text \<open>The global state a finished run leaves, and the error it ended with.\<close>

fun final :: "result \<Rightarrow> window option" where
  "final (Done w) = Some w"
| "final (Fail e w) = Some w"
| "final Hang = None"

fun raised :: "result \<Rightarrow> js_error option" where
  "raised (Done w) = None"
| "raised (Fail e w) = Some e"
| "raised Hang = None"

text \<open>
  The shape the data model asks of a registry: an object whose every property is an
  array of strings.
\<close>

fun is_string :: "jsval \<Rightarrow> bool" where
  "is_string (JString s) = True"
| "is_string v = False"

fun is_fragment_list :: "jsval \<Rightarrow> bool" where
  "is_fragment_list (JArray xs) = list_all is_string xs"
| "is_fragment_list v = False"

fun well_formed :: "jsval \<Rightarrow> bool" where
  "well_formed (JObject ps) = list_all (\<lambda>p. is_fragment_list (snd p)) ps"
| "well_formed v = False"

fun is_function :: "jsval \<Rightarrow> bool" where
  "is_function (JFunction f) = True"
| "is_function v = False"

text \<open>The value of \<^verbatim>\<open>window.pending_implementors\<close> once the run has ended.\<close>

definition pending_after :: "outcome \<Rightarrow> jsval option" where
  "pending_after out =
     map_option (\<lambda>w. get_prop w ''pending_implementors'') (final (result out))"



section \<open>Hosts and global states used as test inputs\<close>

text \<open>A host whose functions all return at once and leave the global state alone.\<close>

definition quiet_host :: host where
  "quiet_host f arg w = Returns w"

text \<open>A host whose functions all throw a string.\<close>

definition throwing_host :: host where
  "throwing_host f arg w = Throws (JString ''boom'') w"

text \<open>A fresh global object, one where the hook is a function, and one where the
  hook's name is bound to the number 1.\<close>

definition fresh_window :: window where
  "fresh_window = Map.empty"

definition hooked_window :: window where
  "hooked_window = [''register_implementors'' \<mapsto> JFunction 0]"

definition numbered_window :: window where
  "numbered_window = [''register_implementors'' \<mapsto> JNumber 1]"

section \<open>The registry as built\<close>

lemma implementors_props:
  "implementors =
     [(''libloading'', JArray []), (''libc'', JArray []), (''dlib'', JArray []),
      (''wayland_sys'', JArray []), (''shared_library'', JArray []),
      (''wayland_client'', JArray (map JString wayland_client_impls)),
      (''tempfile'', JArray []),
      (''wayland_window'', JArray (map JString wayland_window_impls)),
      (''wayland_kbd'', JArray []), (''winit'', JArray [])]"
  by (simp add: implementors_def)

lemma all_strings: "list_all is_string (map JString xs)"
  by (induction xs) simp_all

lemma implementors_well_formed: "well_formed (JObject implementors)"
  by (simp add: implementors_props all_strings)

section \<open>The three cases of the branch\<close>

lemma call_not_function:
  "\<not> is_function callee \<Longrightarrow> call host callee arg w = \<lparr>trace = [], result = Fail TypeError w\<rparr>"
  by (cases callee) simp_all

lemma publish_function:
  "get_prop w ''register_implementors'' = JFunction f \<Longrightarrow>
   publish host w =
     \<lparr>trace = [HookCall f (JObject implementors)],
      result = completion (host f (JObject implementors) w)\<rparr>"
  by (simp add: publish_def)

lemma publish_falsy:
  "\<not> truthy (get_prop w ''register_implementors'') \<Longrightarrow>
   publish host w =
     \<lparr>trace = [SlotWrite ''pending_implementors'' (JObject implementors)],
      result = Done (set_prop w ''pending_implementors'' (JObject implementors))\<rparr>"
  by (simp add: publish_def)

lemma publish_not_callable:
  "truthy (get_prop w ''register_implementors'') \<Longrightarrow>
   \<not> is_function (get_prop w ''register_implementors'') \<Longrightarrow>
   publish host w = \<lparr>trace = [], result = Fail TypeError w\<rparr>"
  by (simp add: publish_def call_not_function)

lemma is_function_cases:
  "is_function v \<Longrightarrow> \<exists>f. v = JFunction f"
  by (cases v) simp_all

lemma get_pending_set_prop:
  "get_prop (set_prop w ''pending_implementors'' v) ''pending_implementors'' = v"
  by (simp add: get_prop_def set_prop_def)

lemma hooked_window_hook: "get_prop hooked_window ''register_implementors'' = JFunction 0"
  by (simp add: hooked_window_def get_prop_def)

lemma fresh_window_hook: "get_prop fresh_window ''register_implementors'' = JUndefined"
  by (simp add: fresh_window_def get_prop_def)

lemma numbered_window_hook: "get_prop numbered_window ''register_implementors'' = JNumber 1"
  by (simp add: numbered_window_def get_prop_def)

section \<open>Properties of the publish step\<close>




text \<open>
  C2. If \<^verbatim>\<open>register_implementors\<close> is a function when the file loads, the run calls it
  exactly once, within the run (the run ends as that call ends), and the argument is the
  registry, whose keys are the ten library identifiers of the literal.
\<close>

theorem publish_calls_hook_once:
  assumes "get_prop w ''register_implementors'' = JFunction f"
  shows "trace (publish host w) = [HookCall f (JObject implementors)] \<and>
         result (publish host w) = completion (host f (JObject implementors) w) \<and>
         map fst implementors =
           [''libloading'', ''libc'', ''dlib'', ''wayland_sys'', ''shared_library'',
            ''wayland_client'', ''tempfile'', ''wayland_window'', ''wayland_kbd'', ''winit'']"
  using assms by (simp add: publish_function implementors_props)

theorem publish_calls_hook_once_witness:
  "get_prop hooked_window ''register_implementors'' = JFunction 0 \<and>
   trace (publish quiet_host hooked_window) = [HookCall 0 (JObject implementors)] \<and>
   result (publish quiet_host hooked_window) = Done hooked_window"
  using publish_calls_hook_once [where w = hooked_window and host = quiet_host and f = 0]
  by (simp add: hooked_window_hook quiet_host_def)

text \<open>
  C3. If \<^verbatim>\<open>register_implementors\<close> is undefined when the file loads, the run ends
  normally and \<^verbatim>\<open>window.pending_implementors\<close> then holds the registry.
\<close>

theorem publish_buffers_when_undefined:
  assumes "get_prop w ''register_implementors'' = JUndefined"
  shows "result (publish host w) =
           Done (set_prop w ''pending_implementors'' (JObject implementors)) \<and>
         pending_after (publish host w) = Some (JObject implementors)"
  using assms by (simp add: publish_falsy pending_after_def get_pending_set_prop)

theorem publish_buffers_when_undefined_witness:
  "get_prop fresh_window ''register_implementors'' = JUndefined \<and>
   pending_after (publish quiet_host fresh_window) = Some (JObject implementors)"
  using publish_buffers_when_undefined [where w = fresh_window and host = quiet_host]
  by (simp add: fresh_window_hook)

text \<open>
  C4. The two paths do not interfere: a run that calls the hook writes no global, and a
  run that writes \<^verbatim>\<open>pending_implementors\<close> calls nothing.
\<close>

theorem publish_paths_do_not_interfere:
  "(hook_args (trace (publish host w)) \<noteq> [] \<longrightarrow> slot_writes (trace (publish host w)) = []) \<and>
   (slot_writes (trace (publish host w)) \<noteq> [] \<longrightarrow> hook_args (trace (publish host w)) = [])"
proof (cases "truthy (get_prop w ''register_implementors'')")
  case False
  then show ?thesis by (simp add: publish_falsy)
next
  case True
  show ?thesis
  proof (cases "is_function (get_prop w ''register_implementors'')")
    case False
    with True show ?thesis by (simp add: publish_not_callable)
  next
    case True
    then obtain f where "get_prop w ''register_implementors'' = JFunction f"
      using is_function_cases by blast
    then show ?thesis by (simp add: publish_function)
  qed
qed

theorem publish_paths_do_not_interfere_witness:
  "hook_args (trace (publish quiet_host hooked_window)) \<noteq> [] \<and>
   slot_writes (trace (publish quiet_host hooked_window)) = [] \<and>
   slot_writes (trace (publish quiet_host fresh_window)) \<noteq> [] \<and>
   hook_args (trace (publish quiet_host fresh_window)) = []"
  using publish_paths_do_not_interfere [where w = hooked_window and host = quiet_host]
    publish_paths_do_not_interfere [where w = fresh_window and host = quiet_host]
  by (simp add: publish_function [OF hooked_window_hook] publish_falsy fresh_window_hook)

text \<open>
  C5. Registry fidelity: whenever the hook is a function or falsy, the one value the run
  hands to the host, as the argument of the call or as the value written to
  \<^verbatim>\<open>pending_implementors\<close>, is the object with the ten keys of the literal in their
  order, each bound to its authored array: the same strings in the same order. On the
  buffer path the slot holds that same object when the run ends.
\<close>

theorem publish_registry_fidelity:
  assumes "is_function (get_prop w ''register_implementors'') \<or>
           \<not> truthy (get_prop w ''register_implementors'')"
  shows "handed (trace (publish host w)) =
           [JObject
             [(''libloading'', JArray []), (''libc'', JArray []), (''dlib'', JArray []),
              (''wayland_sys'', JArray []), (''shared_library'', JArray []),
              (''wayland_client'', JArray (map JString wayland_client_impls)),
              (''tempfile'', JArray []),
              (''wayland_window'', JArray (map JString wayland_window_impls)),
              (''wayland_kbd'', JArray []), (''winit'', JArray [])]] \<and>
         (if is_function (get_prop w ''register_implementors'')
          then hook_args (trace (publish host w)) = handed (trace (publish host w))
          else pending_after (publish host w) = Some (hd (handed (trace (publish host w)))))"
proof (cases "is_function (get_prop w ''register_implementors'')")
  case True
  then obtain f where "get_prop w ''register_implementors'' = JFunction f"
    using is_function_cases by blast
  then show ?thesis
    by (simp add: publish_function implementors_props)
next
  case False
  with assms have "\<not> truthy (get_prop w ''register_implementors'')"
    by simp
  with False show ?thesis
    by (simp add: publish_falsy pending_after_def get_pending_set_prop implementors_props)
qed

theorem publish_registry_fidelity_witness:
  "is_function (get_prop hooked_window ''register_implementors'') \<and>
   hook_args (trace (publish quiet_host hooked_window)) =
     [JObject
       [(''libloading'', JArray []), (''libc'', JArray []), (''dlib'', JArray []),
        (''wayland_sys'', JArray []), (''shared_library'', JArray []),
        (''wayland_client'', JArray (map JString wayland_client_impls)),
        (''tempfile'', JArray []),
        (''wayland_window'', JArray (map JString wayland_window_impls)),
        (''wayland_kbd'', JArray []), (''winit'', JArray [])]] \<and>
   \<not> truthy (get_prop fresh_window ''register_implementors'') \<and>
   pending_after (publish throwing_host fresh_window) =
     Some (JObject
       [(''libloading'', JArray []), (''libc'', JArray []), (''dlib'', JArray []),
        (''wayland_sys'', JArray []), (''shared_library'', JArray []),
        (''wayland_client'', JArray (map JString wayland_client_impls)),
        (''tempfile'', JArray []),
        (''wayland_window'', JArray (map JString wayland_window_impls)),
        (''wayland_kbd'', JArray []), (''winit'', JArray [])])"
  using publish_registry_fidelity [where w = hooked_window and host = quiet_host]
    publish_registry_fidelity [where w = fresh_window and host = throwing_host]
  by (simp add: hooked_window_hook fresh_window_hook)

text \<open>
  C6. Well-formedness: the registry as constructed is an object whose every key is
  bound to an array (possibly empty) of strings, and every value the run hands to the
  host, by the call or by the write, has that shape: the publish step removes no key and
  rebinds none.
\<close>

theorem registry_well_formed:
  "well_formed (JObject implementors) \<and>
   list_all well_formed (handed (trace (publish host w))) \<and>
   list_all (\<lambda>v. v = JObject implementors) (handed (trace (publish host w)))"
proof (cases "truthy (get_prop w ''register_implementors'')")
  case False
  then show ?thesis using implementors_well_formed by (simp add: publish_falsy)
next
  case True
  show ?thesis
  proof (cases "is_function (get_prop w ''register_implementors'')")
    case False
    with True show ?thesis using implementors_well_formed by (simp add: publish_not_callable)
  next
    case True
    then obtain f where "get_prop w ''register_implementors'' = JFunction f"
      using is_function_cases by blast
    then show ?thesis using implementors_well_formed by (simp add: publish_function)
  qed
qed

text \<open>
  C7. Deterministic construction: the registry does not depend on the environment. Any
  two runs, in any two global states and under any two hosts where the hook is a
  function or falsy, hand over equal registries, and that value is the literal; in
  particular two runs in fresh environments leave equal values in
  \<^verbatim>\<open>pending_implementors\<close>.
\<close>

theorem construction_deterministic:
  assumes "is_function (get_prop w1 ''register_implementors'') \<or>
           \<not> truthy (get_prop w1 ''register_implementors'')"
    and "is_function (get_prop w2 ''register_implementors'') \<or>
         \<not> truthy (get_prop w2 ''register_implementors'')"
  shows "handed (trace (publish host1 w1)) = handed (trace (publish host2 w2)) \<and>
         handed (trace (publish host1 w1)) = [JObject implementors] \<and>
         pending_after (publish host1 fresh_window) = pending_after (publish host2 fresh_window) \<and>
         pending_after (publish host1 fresh_window) = Some (JObject implementors)"
proof -
  have one: "handed (trace (publish host w)) = [JObject implementors]"
    if "is_function (get_prop w ''register_implementors'') \<or>
        \<not> truthy (get_prop w ''register_implementors'')" for host w
  proof (cases "is_function (get_prop w ''register_implementors'')")
    case True
    then obtain f where "get_prop w ''register_implementors'' = JFunction f"
      using is_function_cases by blast
    then show ?thesis by (simp add: publish_function)
  next
    case False
    with that show ?thesis by (simp add: publish_falsy)
  qed
  have fresh: "pending_after (publish host fresh_window) = Some (JObject implementors)" for host
    by (simp add: publish_falsy fresh_window_hook pending_after_def get_pending_set_prop)
  show ?thesis
    using one [OF assms(1)] one [OF assms(2)] fresh by simp
qed

theorem construction_deterministic_witness:
  "is_function (get_prop hooked_window ''register_implementors'') \<and>
   \<not> truthy (get_prop fresh_window ''register_implementors'') \<and>
   handed (trace (publish quiet_host hooked_window)) =
     handed (trace (publish throwing_host fresh_window)) \<and>
   pending_after (publish quiet_host fresh_window) =
     pending_after (publish throwing_host fresh_window)"
  using construction_deterministic [where ?w1.0 = hooked_window and ?w2.0 = fresh_window
      and ?host1.0 = quiet_host and ?host2.0 = throwing_host]
  by (simp add: hooked_window_hook fresh_window_hook)

text \<open>
  C8, as stated, fails: bound to the number 1, \<^verbatim>\<open>register_implementors\<close> passes the
  truthiness test and the call expression raises \<^verbatim>\<open>TypeError\<close>, under a host none of
  whose functions throws, and with no function called.
\<close>

theorem publish_type_error_counterexample:
  "result (publish quiet_host numbered_window) = Fail TypeError numbered_window \<and>
   trace (publish quiet_host numbered_window) = []"
  by (simp add: publish_not_callable numbered_window_hook)

text \<open>
  C8, amended. The run raises an error of its own exactly when
  \<^verbatim>\<open>register_implementors\<close> is truthy and not a function. In every other state it has
  no failure of its own: with a falsy hook it ends normally, having stored the registry;
  with a function it ends as the call of the hook ends, normally when the hook returns
  and with the hook's thrown value, uncaught, when the hook throws.
\<close>

theorem publish_fails_only_through_hook:
  "(raised (result (publish host w)) = Some TypeError) =
     (truthy (get_prop w ''register_implementors'') \<and>
      \<not> is_function (get_prop w ''register_implementors'')) \<and>
   (\<not> truthy (get_prop w ''register_implementors'') \<longrightarrow>
      result (publish host w) =
        Done (set_prop w ''pending_implementors'' (JObject implementors))) \<and>
   (\<forall>f. get_prop w ''register_implementors'' = JFunction f \<longrightarrow>
      result (publish host w) = completion (host f (JObject implementors) w))"
proof (cases "truthy (get_prop w ''register_implementors'')")
  case False
  then have "\<forall>f. get_prop w ''register_implementors'' \<noteq> JFunction f"
    by auto
  with False show ?thesis by (simp add: publish_falsy)
next
  case True
  show ?thesis
  proof (cases "is_function (get_prop w ''register_implementors'')")
    case False
    then have "\<forall>f. get_prop w ''register_implementors'' \<noteq> JFunction f"
      by auto
    with True False show ?thesis by (simp add: publish_not_callable)
  next
    case True
    then obtain f where f: "get_prop w ''register_implementors'' = JFunction f"
      using is_function_cases by blast
    have "raised (completion r) \<noteq> Some TypeError" for r
      by (cases r) simp_all
    with f show ?thesis by (simp add: publish_function)
  qed
qed

theorem publish_fails_only_through_hook_witness:
  "\<not> truthy (get_prop fresh_window ''register_implementors'') \<and>
   result (publish throwing_host fresh_window) =
     Done (set_prop fresh_window ''pending_implementors'' (JObject implementors)) \<and>
   get_prop hooked_window ''register_implementors'' = JFunction 0 \<and>
   result (publish quiet_host hooked_window) = Done hooked_window \<and>
   result (publish throwing_host hooked_window) =
     Fail (Thrown (JString ''boom'')) hooked_window \<and>
   raised (result (publish throwing_host hooked_window)) \<noteq> Some TypeError"
  using publish_fails_only_through_hook [where w = fresh_window and host = throwing_host]
    publish_fails_only_through_hook [where w = hooked_window and host = quiet_host]
    publish_fails_only_through_hook [where w = hooked_window and host = throwing_host]
  by (simp add: hooked_window_hook fresh_window_hook quiet_host_def throwing_host_def)

text \<open>
  C9. The exact contents of the registry: the ten keys, in the order of the source;
  eight bound to the empty array; \<^verbatim>\<open>wayland_window\<close> bound to four strings, all
  distinct; \<^verbatim>\<open>wayland_client\<close> bound to eight strings of which four are distinct, each
  occurring exactly twice. Nothing is deduplicated.
\<close>

theorem registry_exact_contents:
  "map fst implementors =
     [''libloading'', ''libc'', ''dlib'', ''wayland_sys'', ''shared_library'',
      ''wayland_client'', ''tempfile'', ''wayland_window'', ''wayland_kbd'', ''winit''] \<and>
   map_of implementors ''libloading'' = Some (JArray []) \<and>
   map_of implementors ''libc'' = Some (JArray []) \<and>
   map_of implementors ''dlib'' = Some (JArray []) \<and>
   map_of implementors ''wayland_sys'' = Some (JArray []) \<and>
   map_of implementors ''shared_library'' = Some (JArray []) \<and>
   map_of implementors ''tempfile'' = Some (JArray []) \<and>
   map_of implementors ''wayland_kbd'' = Some (JArray []) \<and>
   map_of implementors ''winit'' = Some (JArray []) \<and>
   map_of implementors ''wayland_window'' = Some (JArray (map JString wayland_window_impls)) \<and>
   length wayland_window_impls = 4 \<and>
   distinct wayland_window_impls \<and>
   map_of implementors ''wayland_client'' = Some (JArray (map JString wayland_client_impls)) \<and>
   length wayland_client_impls = 8 \<and>
   length (remdups wayland_client_impls) = 4 \<and>
   list_all (\<lambda>x. count_list wayland_client_impls x = 2) wayland_client_impls"
proof -
  have keys: "map fst implementors =
     [''libloading'', ''libc'', ''dlib'', ''wayland_sys'', ''shared_library'',
      ''wayland_client'', ''tempfile'', ''wayland_window'', ''wayland_kbd'', ''winit'']"
    by (simp add: implementors_props)
  have empties: "map_of implementors ''libloading'' = Some (JArray []) \<and>
      map_of implementors ''libc'' = Some (JArray []) \<and>
      map_of implementors ''dlib'' = Some (JArray []) \<and>
      map_of implementors ''wayland_sys'' = Some (JArray []) \<and>
      map_of implementors ''shared_library'' = Some (JArray []) \<and>
      map_of implementors ''tempfile'' = Some (JArray []) \<and>
      map_of implementors ''wayland_kbd'' = Some (JArray []) \<and>
      map_of implementors ''winit'' = Some (JArray [])"
    by (simp add: implementors_props)
  have window: "map_of implementors ''wayland_window'' =
      Some (JArray (map JString wayland_window_impls))"
    by (simp add: implementors_props)
  have client: "map_of implementors ''wayland_client'' =
      Some (JArray (map JString wayland_client_impls))"
    by (simp add: implementors_props)
  have window_len: "length wayland_window_impls = 4"
    by (simp add: wayland_window_impls_def)
  have window_distinct: "distinct wayland_window_impls"
    by (simp add: wayland_window_impls_def)
  have client_len: "length wayland_client_impls = 8"
    by (simp add: wayland_client_impls_def)
  have client_four: "length (remdups wayland_client_impls) = 4"
    by (simp add: wayland_client_impls_def)
  have client_twice: "list_all (\<lambda>x. count_list wayland_client_impls x = 2) wayland_client_impls"
    by (simp add: wayland_client_impls_def)
  show ?thesis
    using keys empties window client window_len window_distinct client_len client_four
      client_twice
    by blast
qed

text \<open>
  C10. The frame of the publish step. When the hook is a function the file itself writes
  no global: the run ends as the call ends, in the state the hook leaves, so a hook that
  leaves \<^verbatim>\<open>pending_implementors\<close> alone leaves it as it was, unset included. When the
  hook is not a function nothing is called and every binding other than
  \<^verbatim>\<open>pending_implementors\<close>, the one of \<^verbatim>\<open>register_implementors\<close> among them, is as it
  was before. In every case the only global the file writes is
  \<^verbatim>\<open>pending_implementors\<close>.
\<close>

theorem publish_frame:
  "(\<forall>f. get_prop w ''register_implementors'' = JFunction f \<longrightarrow>
      slot_writes (trace (publish host w)) = [] \<and>
      result (publish host w) = completion (host f (JObject implementors) w)) \<and>
   (\<not> is_function (get_prop w ''register_implementors'') \<longrightarrow>
      hook_args (trace (publish host w)) = [] \<and>
      (\<exists>w'. final (result (publish host w)) = Some w' \<and>
         w' ''register_implementors'' = w ''register_implementors'' \<and>
         (\<forall>k. k \<noteq> ''pending_implementors'' \<longrightarrow> w' k = w k))) \<and>
   list_all (\<lambda>p. fst p = ''pending_implementors'') (slot_writes (trace (publish host w)))"
proof (cases "is_function (get_prop w ''register_implementors'')")
  case True
  then obtain f where "get_prop w ''register_implementors'' = JFunction f"
    using is_function_cases by blast
  then show ?thesis by (simp add: publish_function)
next
  case False
  then have nofun: "\<forall>f. get_prop w ''register_implementors'' \<noteq> JFunction f"
    by auto
  show ?thesis
  proof (cases "truthy (get_prop w ''register_implementors'')")
    case True
    with False nofun show ?thesis by (simp add: publish_not_callable)
  next
    case False
    with nofun show ?thesis by (simp add: publish_falsy set_prop_def)
  qed
qed

theorem publish_frame_witness:
  "get_prop hooked_window ''register_implementors'' = JFunction 0 \<and>
   hooked_window ''pending_implementors'' = None \<and>
   slot_writes (trace (publish quiet_host hooked_window)) = [] \<and>
   result (publish quiet_host hooked_window) = Done hooked_window \<and>
   \<not> is_function (get_prop fresh_window ''register_implementors'') \<and>
   hook_args (trace (publish quiet_host fresh_window)) = [] \<and>
   map_option (\<lambda>w'. w' ''register_implementors'') (final (result (publish quiet_host fresh_window)))
     = Some None"
proof -
  have unset: "hooked_window ''pending_implementors'' = None"
    by (simp add: hooked_window_def)
  have hooked: "slot_writes (trace (publish quiet_host hooked_window)) = [] \<and>
      result (publish quiet_host hooked_window) =
        completion (quiet_host 0 (JObject implementors) hooked_window)"
    using publish_frame [where w = hooked_window and host = quiet_host] hooked_window_hook
    by blast
  have no_hook: "\<not> is_function (get_prop fresh_window ''register_implementors'')"
    by (simp add: fresh_window_hook)
  with publish_frame [where w = fresh_window and host = quiet_host]
  obtain w' where calls: "hook_args (trace (publish quiet_host fresh_window)) = []"
    and fin: "final (result (publish quiet_host fresh_window)) = Some w'"
    and same: "w' ''register_implementors'' = fresh_window ''register_implementors''"
    by blast
  have "fresh_window ''register_implementors'' = None"
    by (simp add: fresh_window_def)
  with same fin have "map_option (\<lambda>w'. w' ''register_implementors'')
      (final (result (publish quiet_host fresh_window))) = Some None"
    by simp
  with unset hooked no_hook calls show ?thesis
    by (simp add: hooked_window_hook quiet_host_def)
qed

end
